theory Spec2Isabelle
  imports Main
begin

section \<open>The live voice client: data model\<close>

text \<open>
  The development embeds the class \<open>ServerSideLiveVoiceClient\<close> (the client half of the
  live voice session: HTTP requests and a server-sent event stream). Its methods mutate
  the fields of the object and call into the browser; the model passes a \<open>world\<close>
  explicitly: the fields of the object, the trace of the calls made into the browser
  (network, media devices, DOM, console), the timers set and a logical clock.
  An \<open>async\<close> method is split where it awaits: one function runs up to the await,
  a second one resumes it with the outcome the environment delivers.
\<close>

subsection \<open>JavaScript values\<close>

text \<open>
  The values the client tests for truthiness: \<open>null\<close>, \<open>undefined\<close> and strings
  (session ids, message texts, base64 audio). The empty string is falsy.
\<close>

datatype jsval = JUndefined | JNull | JStr string

fun truthy :: "jsval \<Rightarrow> bool" where
  "truthy (JStr s) = (s \<noteq> [])"
| "truthy JUndefined = False"
| "truthy JNull = False"

text \<open>The outcome of an awaited promise: its value, or the message of the error.\<close>

datatype 'a outcome = Resolved 'a | Rejected string

text \<open>
  The text given to \<open>sendTextMessage\<close> is a JavaScript string: a sequence of UTF-16 code
  units. \<open>String.prototype.trim\<close> strips, at both ends, the white space and the line
  terminators of ECMAScript: tab, line feed, vertical tab, form feed, carriage return,
  space, no-break space (U+00A0), U+1680, U+2000 to U+200A, the line and paragraph
  separators (U+2028, U+2029), U+202F, U+205F, U+3000 and the byte order mark (U+FEFF).
  \<open>utf16\<close> gives the code units of a text of ASCII characters.
\<close>

type_synonym utf16 = "nat list"

definition utf16 :: "string \<Rightarrow> utf16" where
  "utf16 s = map of_char s"

definition js_whitespace :: "nat \<Rightarrow> bool" where
  "js_whitespace c =
     (c \<in> {9, 10, 11, 12, 13, 32, 160, 5760, 8232, 8233, 8239, 8287, 12288, 65279}
      \<or> (8192 \<le> c \<and> c \<le> 8202))"

definition trim :: "utf16 \<Rightarrow> utf16" where
  "trim s = rev (dropWhile js_whitespace (rev (dropWhile js_whitespace s)))"

subsection \<open>Browser objects\<close>

text \<open>A blob is its bytes; \<open>new Blob(chunks)\<close> concatenates the chunks in order.\<close>

type_synonym blob = "nat list"

definition Blob :: "blob list \<Rightarrow> blob" where
  "Blob chunks = concat chunks"

datatype track_state = Live | Ended

datatype recording_state = Inactive | Recording | Paused

text \<open>
  A \<open>MediaRecorder\<close>: its \<open>state\<close> attribute and the tracks of its \<open>stream\<close>
  (\<open>stream.getTracks()\<close>). A recorder always has a stream, so the test
  \<open>this.mediaRecorder.stream\<close> of \<open>end\<close> holds whenever the recorder exists.
\<close>

record MediaRecorder =
  state :: recording_state
  stream :: "track_state list"

datatype ready_state = CONNECTING | OPEN | CLOSED

text \<open>An \<open>EventSource\<close>: the session id in its URL and its \<open>readyState\<close>.\<close>

record EventSource =
  url_session :: jsval
  readyState :: ready_state

datatype error =
  InvalidStateError | NotSupportedError | TypeError | SyntaxError | Rejection string

text \<open>
  A stream is active while one of its tracks is live. \<open>MediaRecorder.start()\<close> raises
  \<open>InvalidStateError\<close> unless the recorder is inactive, and \<open>NotSupportedError\<close> when
  the stream of the recorder is not active. \<open>MediaRecorder.stop()\<close> raises
  \<open>InvalidStateError\<close> when the recorder is inactive; it makes the recorder inactive at
  once, and the browser delivers the \<open>dataavailable\<close> and \<open>stop\<close> events later.
\<close>

definition stream_active :: "track_state list \<Rightarrow> bool" where
  "stream_active tracks = (Live \<in> set tracks)"

definition MediaRecorder_start :: "MediaRecorder \<Rightarrow> error + MediaRecorder" where
  "MediaRecorder_start r =
     (if state r \<noteq> Inactive then Inl InvalidStateError
      else if \<not> stream_active (stream r) then Inl NotSupportedError
      else Inr (r\<lparr>state := Recording\<rparr>))"

definition MediaRecorder_stop :: "MediaRecorder \<Rightarrow> error + MediaRecorder" where
  "MediaRecorder_stop r =
     (if state r = Inactive then Inl InvalidStateError else Inr (r\<lparr>state := Inactive\<rparr>))"

subsection \<open>The client object and the world around it\<close>

text \<open>The fields the constructor declares (\<open>baseUrl\<close> is a constant and is left out).\<close>

record client =
  sessionId :: jsval
  eventSource :: "EventSource option"
  isActive :: bool
  mediaRecorder :: "MediaRecorder option"
  audioChunks :: "blob list"

definition constructor :: client where
  "constructor =
     \<lparr>sessionId = JNull, eventSource = None, isActive = False,
      mediaRecorder = None, audioChunks = []\<rparr>"

text \<open>
  The requests the client sends, by endpoint: the session id interpolated into the URL
  and the body. The audio body is the base64 text of the blob; the encoding is the
  browser's, and the blob stands for it.
\<close>

datatype request =
    CreateSession
  | PostText jsval utf16
  | PostAudio jsval blob
  | EndSession jsval

text \<open>Every call the client makes into the browser, in the order made.\<close>

datatype effect =
    Fetch request
  | NewEventSource jsval
  | EventSourceClose
  | GetUserMedia
  | NewMediaRecorder
  | RecorderStart
  | RecorderStop
  | TrackStop nat
  | ReadAsDataURL blob
  | SetTimeout nat
  | PlayAudio jsval
  | DisplayResponse jsval
  | DisplayUserMessage jsval
  | ShowError jsval
  | ConsoleLog string
  | ConsoleError string
  | Uncaught error

text \<open>
  \<open>timers\<close> holds the due times of the pending \<open>setTimeout\<close> callbacks (the only
  callback the client ever schedules is the one of \<open>reconnect\<close>), \<open>now\<close> is the clock
  in milliseconds.
\<close>

record world =
  self :: client
  trace :: "effect list"
  timers :: "nat list"
  now :: nat

definition emit :: "effect \<Rightarrow> world \<Rightarrow> world" where
  "emit e w = w\<lparr>trace := trace w @ [e]\<rparr>"

text \<open>
  How far a call of an \<open>async\<close> method or callback got: it returned, it threw (its
  promise was rejected), or it awaits the response to a request, or the \<open>FileReader\<close>
  reading a blob.
\<close>

datatype status = Returned | Threw error | AwaitingFetch request | AwaitingReader blob

section \<open>Recording\<close>

text \<open>
  \<open>startRecording\<close> and \<open>stopRecording\<close>: the result is the boolean returned, or the
  error the recorder raised, with the world as the call left it. \<open>startRecording\<close>
  empties the chunk buffer before it calls \<open>start()\<close>, and neither method catches.
\<close>

definition startRecording :: "world \<Rightarrow> (error + bool) \<times> world" where
  "startRecording w =
     (case mediaRecorder (self w) of
        None \<Rightarrow> (Inr False, w)
      | Some r \<Rightarrow>
          if state r = Inactive then
            (let w1 = w\<lparr>self := (self w)\<lparr>audioChunks := []\<rparr>\<rparr>
             in case MediaRecorder_start r of
                  Inl e \<Rightarrow> (Inl e, w1)
                | Inr r' \<Rightarrow>
                    (Inr True,
                     emit (ConsoleLog ''Recording started'')
                       (emit RecorderStart
                          (w1\<lparr>self := (self w1)\<lparr>mediaRecorder := Some r'\<rparr>\<rparr>))))
          else (Inr False, w))"

definition stopRecording :: "world \<Rightarrow> (error + bool) \<times> world" where
  "stopRecording w =
     (case mediaRecorder (self w) of
        None \<Rightarrow> (Inr False, w)
      | Some r \<Rightarrow>
          if state r = Recording then
            (case MediaRecorder_stop r of
               Inl e \<Rightarrow> (Inl e, w)
             | Inr r' \<Rightarrow>
                 (Inr True,
                  emit (ConsoleLog ''Recording stopped'')
                    (emit RecorderStop
                       (w\<lparr>self := (self w)\<lparr>mediaRecorder := Some r'\<rparr>\<rparr>))))
          else (Inr False, w))"

text \<open>
  A sequence of calls of the two methods, stopping at the first error raised: the
  error, if any, and the world reached.
\<close>

datatype recording_call = Start | Stop

fun run_recording_calls :: "recording_call list \<Rightarrow> world \<Rightarrow> error option \<times> world" where
  "run_recording_calls [] w = (None, w)"
| "run_recording_calls (Start # cs) w =
     (case startRecording w of
        (Inl e, w') \<Rightarrow> (Some e, w')
      | (Inr b, w') \<Rightarrow> run_recording_calls cs w')"
| "run_recording_calls (Stop # cs) w =
     (case stopRecording w of
        (Inl e, w') \<Rightarrow> (Some e, w')
      | (Inr b, w') \<Rightarrow> run_recording_calls cs w')"

text \<open>
  The states the guards distinguish, and whether the stream of the recorder, if there
  is a recorder, is active.
\<close>

definition can_start :: "world \<Rightarrow> bool" where
  "can_start w =
     (case mediaRecorder (self w) of None \<Rightarrow> False | Some r \<Rightarrow> state r = Inactive)"

definition can_stop :: "world \<Rightarrow> bool" where
  "can_stop w =
     (case mediaRecorder (self w) of None \<Rightarrow> False | Some r \<Rightarrow> state r = Recording)"

definition stream_live :: "world \<Rightarrow> bool" where
  "stream_live w =
     (case mediaRecorder (self w) of None \<Rightarrow> True | Some r \<Rightarrow> stream_active (stream r))"

definition set_recorder_state :: "recording_state \<Rightarrow> world \<Rightarrow> world" where
  "set_recorder_state s w =
     w\<lparr>self := (self w)\<lparr>mediaRecorder := map_option (\<lambda>r. r\<lparr>state := s\<rparr>) (mediaRecorder (self w))\<rparr>\<rparr>"

section \<open>The user interface\<close>

text \<open>
  \<open>displayResponse\<close>, \<open>displayUserMessage\<close> and \<open>showError\<close> append an element to the
  conversation box of the page, when the page has one (\<open>showError\<close> logs the message
  first); \<open>playAudio\<close> creates an \<open>Audio\<close> element and plays it, and only logs a
  playback failure. None of them touches a field of the client.
\<close>

definition displayResponse :: "jsval \<Rightarrow> world \<Rightarrow> world" where
  "displayResponse text w = emit (DisplayResponse text) w"

definition displayUserMessage :: "jsval \<Rightarrow> world \<Rightarrow> world" where
  "displayUserMessage text w = emit (DisplayUserMessage text) w"

definition showError :: "jsval \<Rightarrow> world \<Rightarrow> world" where
  "showError message w = emit (ShowError message) (emit (ConsoleError ''Live Voice Error:'') w)"

definition playAudio :: "jsval \<Rightarrow> world \<Rightarrow> world" where
  "playAudio base64Audio w = emit (PlayAudio base64Audio) w"

section \<open>The event stream\<close>

definition setupEventStream :: "world \<Rightarrow> world" where
  "setupEventStream w =
     (if \<not> truthy (sessionId (self w)) then w
      else emit (NewEventSource (sessionId (self w)))
             (w\<lparr>self := (self w)\<lparr>eventSource :=
                  Some \<lparr>url_session = sessionId (self w), readyState = CONNECTING\<rparr>\<rparr>\<rparr>))"

text \<open>
  \<open>reconnect\<close> schedules \<open>setupEventStream\<close> with \<open>setTimeout\<close>, 3000 ms from now.
\<close>

definition reconnect :: "world \<Rightarrow> world" where
  "reconnect w =
     (let w1 = emit (ConsoleLog ''Attempting to reconnect...'') w
      in emit (SetTimeout 3000) (w1\<lparr>timers := timers w1 @ [now w1 + 3000]\<rparr>))"

text \<open>
  A pushed event as \<open>handleServerMessage\<close> reads it: \<open>data.type\<close>, \<open>data.data\<close> (the
  message, when there is one) and \<open>data.error\<close>.
\<close>

record message =
  role :: jsval
  content :: jsval
  audio :: jsval

record server_event =
  ev_type :: jsval
  ev_data :: "message option"
  ev_error :: jsval

definition handleServerMessage :: "server_event \<Rightarrow> world \<Rightarrow> world" where
  "handleServerMessage d w =
     (if ev_type d = JStr ''message'' then
        (case ev_data d of
           None \<Rightarrow> emit (Uncaught TypeError) w
         | Some m \<Rightarrow>
             if role m = JStr ''assistant'' then
               (let w1 = displayResponse (content m) w
                in if truthy (audio m) then playAudio (audio m) w1 else w1)
             else if role m = JStr ''user'' then displayUserMessage (content m) w
             else w)
      else if ev_type d = JStr ''heartbeat'' then emit (ConsoleLog ''Heartbeat received'') w
      else if truthy (ev_error d) then showError (ev_error d) w
      else w)"

text \<open>
  The handlers \<open>setupEventStream\<close> installs. \<open>onmessage\<close> parses the event's text as
  JSON (\<open>None\<close>: the text does not parse, and the handler dies with a \<open>SyntaxError\<close>).
  \<open>onerror\<close> reads the \<open>readyState\<close> of \<open>this.eventSource\<close>.
\<close>

definition onmessage :: "server_event option \<Rightarrow> world \<Rightarrow> world" where
  "onmessage parsed w =
     (case parsed of None \<Rightarrow> emit (Uncaught SyntaxError) w | Some d \<Rightarrow> handleServerMessage d w)"

definition onerror :: "world \<Rightarrow> world" where
  "onerror w =
     (let w1 = emit (ConsoleError ''SSE Error:'') w
      in case eventSource (self w1) of
           None \<Rightarrow> emit (Uncaught TypeError) w1
         | Some es \<Rightarrow> if readyState es = CLOSED then reconnect w1 else w1)"

text \<open>
  The browser's side of the stream. An error on the stream leaves the event source in
  the state \<open>rs\<close> (\<open>CONNECTING\<close> while the browser retries by itself, \<open>CLOSED\<close> when it
  gave up) and then runs \<open>onerror\<close>; a closed or absent event source delivers nothing.
  \<open>elapse\<close> lets \<open>dt\<close> milliseconds pass with no other event: the timers now due run
  their callback, \<open>setupEventStream\<close>, in the order they were set.
\<close>

definition sse_error :: "ready_state \<Rightarrow> world \<Rightarrow> world" where
  "sse_error rs w =
     (case eventSource (self w) of
        None \<Rightarrow> w
      | Some es \<Rightarrow>
          if readyState es = CLOSED then w
          else onerror (w\<lparr>self := (self w)\<lparr>eventSource := Some (es\<lparr>readyState := rs\<rparr>)\<rparr>\<rparr>))"

definition elapse :: "nat \<Rightarrow> world \<Rightarrow> world" where
  "elapse dt w =
     (let t = now w + dt;
          due = filter (\<lambda>d. d \<le> t) (timers w);
          later = filter (\<lambda>d. \<not> d \<le> t) (timers w)
      in fold (\<lambda>d. setupEventStream) due (w\<lparr>now := t, timers := later\<rparr>))"

section \<open>Sending text and audio\<close>

text \<open>
  What a submission's response holds for the client: \<open>data.audio\<close> and \<open>data.text\<close>.
\<close>

record response =
  r_audio :: jsval
  r_text :: jsval

definition handle_response :: "response \<Rightarrow> world \<Rightarrow> world" where
  "handle_response d w =
     (let w1 = (if truthy (r_audio d) then playAudio (r_audio d) w else w)
      in if truthy (r_text d) then displayResponse (r_text d) w1 else w1)"

text \<open>
  \<open>sendTextMessage\<close> up to its first \<open>await\<close>, and from there on: the outcome is the
  parsed body of the response, or the error of \<open>fetch\<close> or of \<open>response.json()\<close>,
  which the one \<open>catch\<close> of the method handles.
\<close>

definition sendTextMessage_start :: "utf16 \<Rightarrow> world \<Rightarrow> status \<times> world" where
  "sendTextMessage_start text w =
     (if \<not> truthy (sessionId (self w)) \<or> trim text = [] then (Returned, w)
      else (AwaitingFetch (PostText (sessionId (self w)) text),
            emit (Fetch (PostText (sessionId (self w)) text)) w))"

definition sendTextMessage_resume :: "response outcome \<Rightarrow> world \<Rightarrow> world" where
  "sendTextMessage_resume out w =
     (case out of
        Resolved d \<Rightarrow> handle_response d w
      | Rejected msg \<Rightarrow>
          showError (JStr msg) (emit (ConsoleError ''Failed to send text message:'') w))"

text \<open>
  \<open>sendAudioToServer\<close> returns once the \<open>FileReader\<close> is started. The reader's
  \<open>onloadend\<close> callback runs later with the reader's result (\<open>None\<close>: the read failed,
  \<open>reader.result\<close> is \<open>null\<close> and the callback dies with a \<open>TypeError\<close>); it reads
  \<open>this.sessionId\<close> again for the URL, and nothing catches a failure inside it.
  The \<open>try\<close> of the method itself covers only the start of the read, which does not
  fail for a blob.
\<close>

definition sendAudioToServer_start :: "blob \<Rightarrow> world \<Rightarrow> status \<times> world" where
  "sendAudioToServer_start audioBlob w =
     (if \<not> truthy (sessionId (self w)) then (Returned, w)
      else (AwaitingReader audioBlob, emit (ReadAsDataURL audioBlob) w))"

definition reader_onloadend :: "blob option \<Rightarrow> world \<Rightarrow> status \<times> world" where
  "reader_onloadend result w =
     (case result of
        None \<Rightarrow> (Threw TypeError, emit (Uncaught TypeError) w)
      | Some base64Audio \<Rightarrow>
          (AwaitingFetch (PostAudio (sessionId (self w)) base64Audio),
           emit (Fetch (PostAudio (sessionId (self w)) base64Audio)) w))"

definition reader_resume :: "response outcome \<Rightarrow> world \<Rightarrow> world" where
  "reader_resume out w =
     (case out of
        Resolved d \<Rightarrow> handle_response d w
      | Rejected msg \<Rightarrow> emit (Uncaught (Rejection msg)) w)"

section \<open>Audio capture\<close>

text \<open>
  The two handlers \<open>setupAudioCapture\<close> installs on the recorder: \<open>ondataavailable\<close>
  keeps a chunk that is not empty, \<open>onstop\<close> hands the chunks kept, as one blob, to
  \<open>sendAudioToServer\<close> and empties the buffer.
\<close>

definition ondataavailable :: "blob \<Rightarrow> world \<Rightarrow> world" where
  "ondataavailable data w =
     (if length data > 0 then w\<lparr>self := (self w)\<lparr>audioChunks := audioChunks (self w) @ [data]\<rparr>\<rparr>
      else w)"

definition onstop :: "world \<Rightarrow> status \<times> world" where
  "onstop w =
     (let audioBlob = Blob (audioChunks (self w))
      in sendAudioToServer_start audioBlob (w\<lparr>self := (self w)\<lparr>audioChunks := []\<rparr>\<rparr>))"

text \<open>
  \<open>setupAudioCapture\<close>: \<open>media\<close> is the outcome of \<open>getUserMedia\<close> (the tracks of the
  stream acquired), \<open>recorder_ok\<close> whether the \<open>MediaRecorder\<close> constructor accepts the
  stream and the mime type. The result is the error rethrown, if any. When the
  constructor throws, the stream acquired is referenced by nothing any more.
\<close>

definition setupAudioCapture ::
  "track_state list outcome \<Rightarrow> bool \<Rightarrow> world \<Rightarrow> string option \<times> world" where
  "setupAudioCapture media recorder_ok w =
     (let w1 = emit GetUserMedia w
      in case media of
           Rejected msg \<Rightarrow> (Some msg, emit (ConsoleError ''Failed to setup audio capture:'') w1)
         | Resolved tracks \<Rightarrow>
             if recorder_ok then
               (None,
                emit (ConsoleLog ''Audio capture setup complete'')
                  (emit NewMediaRecorder
                     (w1\<lparr>self := (self w1)\<lparr>mediaRecorder :=
                          Some \<lparr>state = Inactive, stream = tracks\<rparr>\<rparr>\<rparr>)))
             else
               (Some ''NotSupportedError'',
                emit (ConsoleError ''Failed to setup audio capture:'') w1))"

section \<open>Session life cycle\<close>

text \<open>
  \<open>initialize\<close>, with the outcomes of its awaits: \<open>created\<close> is \<open>data.session_id\<close> of the
  response to the create request (or the error of \<open>fetch\<close> or \<open>response.json()\<close>).
  The call is run to its return, nothing else happening meanwhile; the result is the
  boolean returned.
\<close>

definition initialize ::
  "jsval outcome \<Rightarrow> track_state list outcome \<Rightarrow> bool \<Rightarrow> world \<Rightarrow> bool \<times> world" where
  "initialize created media recorder_ok w =
     (let w1 = emit (Fetch CreateSession)
                 (emit (ConsoleLog ''Initializing Server-Side Live Voice Client...'') w)
      in case created of
           Rejected msg \<Rightarrow>
             (False,
              showError (JStr msg)
                (emit (ConsoleError ''Failed to initialize Live Voice Client:'') w1))
         | Resolved sid \<Rightarrow>
             (case setupAudioCapture media recorder_ok
                     (setupEventStream (w1\<lparr>self := (self w1)\<lparr>sessionId := sid\<rparr>\<rparr>)) of
                (Some msg, w2) \<Rightarrow>
                  (False,
                   showError (JStr msg)
                     (emit (ConsoleError ''Failed to initialize Live Voice Client:'') w2))
              | (None, w2) \<Rightarrow>
                  (True,
                   emit (ConsoleLog ''Live Voice Client initialized successfully'')
                     (w2\<lparr>self := (self w2)\<lparr>isActive := True\<rparr>\<rparr>))))"

text \<open>
  \<open>track.stop()\<close> on every track of the recorder's stream, in order.
\<close>

definition stop_tracks :: "world \<Rightarrow> world" where
  "stop_tracks w =
     (case mediaRecorder (self w) of
        None \<Rightarrow> w
      | Some r \<Rightarrow>
          fold (\<lambda>i. emit (TrackStop i)) [0..<length (stream r)]
            (w\<lparr>self := (self w)\<lparr>mediaRecorder :=
                 Some (r\<lparr>stream := map (\<lambda>t. Ended) (stream r)\<rparr>)\<rparr>\<rparr>))"

text \<open>
  \<open>end\<close> up to its \<open>await fetch\<close>, and from there on with the outcome of the fetch
  (\<open>fetch\<close> rejects on a network failure; a response with an error status resolves).
  The whole body after the guard is one \<open>try\<close> whose \<open>catch\<close> only logs, so no
  error leaves the method.
\<close>

definition end_start :: "world \<Rightarrow> status \<times> world" where
  "end_start w =
     (if \<not> truthy (sessionId (self w)) then (Returned, w)
      else
        (case stopRecording w of
           (Inl e, w1) \<Rightarrow> (Returned, emit (ConsoleError ''Failed to end session:'') w1)
         | (Inr b, w1) \<Rightarrow>
             (let w2 = (case eventSource (self w1) of
                          None \<Rightarrow> w1
                        | Some es \<Rightarrow>
                            emit EventSourceClose (w1\<lparr>self := (self w1)\<lparr>eventSource := None\<rparr>\<rparr>))
              in (AwaitingFetch (EndSession (sessionId (self w2))),
                  emit (Fetch (EndSession (sessionId (self w2)))) w2))))"

definition end_resume :: "unit outcome \<Rightarrow> world \<Rightarrow> world" where
  "end_resume out w =
     (case out of
        Rejected msg \<Rightarrow> emit (ConsoleError ''Failed to end session:'') w
      | Resolved u \<Rightarrow>
          (let w1 = stop_tracks w
           in emit (ConsoleLog ''Live voice session ended'')
                (w1\<lparr>self := (self w1)\<lparr>isActive := False, sessionId := JNull\<rparr>\<rparr>)))"

text \<open>A call of \<open>end\<close> run to its return, nothing else happening meanwhile.\<close>

definition end_call :: "unit outcome \<Rightarrow> world \<Rightarrow> world" where
  "end_call out w =
     (case end_start w of
        (AwaitingFetch req, w1) \<Rightarrow> end_resume out w1
      | (st, w1) \<Rightarrow> w1)"

section \<open>Runs of the client\<close>

text \<open>
  The world of a page that has just constructed the client, and the world after
  \<open>initialize\<close> succeeded there with the session id \<open>s1\<close> and a stream of one track.
\<close>

definition fresh_world :: world where
  "fresh_world = \<lparr>self = constructor, trace = [], timers = [], now = 0\<rparr>"

definition started_world :: world where
  "started_world = snd (initialize (Resolved (JStr ''s1'')) (Resolved [Live]) True fresh_world)"

text \<open>
  What a trace holds: the requests sent, the delays of the timers set, the event
  streams opened, the errors shown to the user, the tracks stopped, the reads started,
  the releases of a resource (the event source closed, the recorder stopped, a track
  stopped) and the errors nothing caught, each in order.
\<close>

fun fetches :: "effect list \<Rightarrow> request list" where
  "fetches [] = []"
| "fetches (Fetch r # es) = r # fetches es"
| "fetches (e # es) = fetches es"

fun timeouts :: "effect list \<Rightarrow> nat list" where
  "timeouts [] = []"
| "timeouts (SetTimeout d # es) = d # timeouts es"
| "timeouts (e # es) = timeouts es"

fun streams_opened :: "effect list \<Rightarrow> jsval list" where
  "streams_opened [] = []"
| "streams_opened (NewEventSource sid # es) = sid # streams_opened es"
| "streams_opened (e # es) = streams_opened es"

fun errors_shown :: "effect list \<Rightarrow> jsval list" where
  "errors_shown [] = []"
| "errors_shown (ShowError m # es) = m # errors_shown es"
| "errors_shown (e # es) = errors_shown es"

fun tracks_stopped :: "effect list \<Rightarrow> nat list" where
  "tracks_stopped [] = []"
| "tracks_stopped (TrackStop i # es) = i # tracks_stopped es"
| "tracks_stopped (e # es) = tracks_stopped es"

fun reads_started :: "effect list \<Rightarrow> blob list" where
  "reads_started [] = []"
| "reads_started (ReadAsDataURL b # es) = b # reads_started es"
| "reads_started (e # es) = reads_started es"

fun releases :: "effect list \<Rightarrow> effect list" where
  "releases [] = []"
| "releases (EventSourceClose # es) = EventSourceClose # releases es"
| "releases (RecorderStop # es) = RecorderStop # releases es"
| "releases (TrackStop i # es) = TrackStop i # releases es"
| "releases (e # es) = releases es"

fun uncaught :: "effect list \<Rightarrow> error list" where
  "uncaught [] = []"
| "uncaught (Uncaught e # es) = e # uncaught es"
| "uncaught (e # es) = uncaught es"

text \<open>
  \<open>n\<close> connection losses in a row: each time the stream fails for good (\<open>CLOSED\<close>),
  and the 3000 ms of the timer pass before the next failure.
\<close>

fun connection_losses :: "nat \<Rightarrow> world \<Rightarrow> world" where
  "connection_losses 0 w = w"
| "connection_losses (Suc n) w = connection_losses n (elapse 3000 (sse_error CLOSED w))"

definition connected :: "world \<Rightarrow> bool" where
  "connected w =
     (truthy (sessionId (self w)) \<and> timers w = [] \<and>
      (case eventSource (self w) of None \<Rightarrow> False | Some es \<Rightarrow> readyState es \<noteq> CLOSED))"

text \<open>
  The browser's events after the recorder was stopped (the client calls \<open>start()\<close>
  with no time slice, so all the data recorded comes in one \<open>dataavailable\<close> event,
  then \<open>stop\<close>), and the end of the read that \<open>onstop\<close> started.
\<close>

definition recorder_stopped :: "blob \<Rightarrow> world \<Rightarrow> status \<times> world" where
  "recorder_stopped data w = onstop (ondataavailable data w)"

definition read_done :: "status \<times> world \<Rightarrow> status \<times> world" where
  "read_done sw =
     (case sw of
        (AwaitingReader b, w) \<Rightarrow> reader_onloadend (Some b) w
      | (st, w) \<Rightarrow> (st, w))"

text \<open>
  One recording: it is started and stopped by the two methods, and the browser delivers
  the data recorded and the \<open>stop\<close> event, which starts the read of the blob.
  \<open>read_ends\<close> is the end of a read that succeeded, whenever it comes. One utterance
  is a recording whose read ends before anything else happens.
\<close>

definition record_utterance :: "blob \<Rightarrow> world \<Rightarrow> status \<times> world" where
  "record_utterance data w =
     (case run_recording_calls [Start, Stop] w of
        (Some e, w1) \<Rightarrow> (Threw e, w1)
      | (None, w1) \<Rightarrow> recorder_stopped data w1)"

definition read_ends :: "blob \<Rightarrow> world \<Rightarrow> world" where
  "read_ends b w = snd (reader_onloadend (Some b) w)"

definition utterance :: "blob \<Rightarrow> world \<Rightarrow> world" where
  "utterance data w = snd (read_done (record_utterance data w))"

definition can_record :: "world \<Rightarrow> bool" where
  "can_record w = (can_start w \<and> stream_live w \<and> truthy (sessionId (self w)))"

text \<open>
  The recordings \<open>ds\<close> made one after the other, no read ended yet; and the number of
  tracks of the recorder's stream.
\<close>

definition recordings :: "blob list \<Rightarrow> world \<Rightarrow> world" where
  "recordings ds w = fold (\<lambda>d w. snd (record_utterance d w)) ds w"


text \<open>
  The started world with a recording in progress; the started world after an \<open>end\<close>
  whose termination request was answered; the world after an \<open>initialize\<close> in which
  the stream was acquired and the \<open>MediaRecorder\<close> constructor threw; and two pushed
  events.
\<close>

definition recording_world :: world where
  "recording_world = snd (startRecording started_world)"

definition ended_world :: world where
  "ended_world = end_call (Resolved ()) started_world"

definition failed_start_world :: world where
  "failed_start_world =
     snd (initialize (Resolved (JStr ''s1'')) (Resolved [Live]) False fresh_world)"

definition assistant_event :: server_event where
  "assistant_event =
     \<lparr>ev_type = JStr ''message'',
      ev_data = Some \<lparr>role = JStr ''assistant'', content = JStr ''Hi there'',
                       audio = JStr ''QUJD''\<rparr>,
      ev_error = JUndefined\<rparr>"

definition heartbeat_event :: server_event where
  "heartbeat_event = \<lparr>ev_type = JStr ''heartbeat'', ev_data = None, ev_error = JUndefined\<rparr>"

section \<open>The session log of the server\<close>

text \<open>
  Modelled from the spec: the server's SessionManager and its session log are not
  among the sources (only the client that calls it is). The spec's words: a Session
  holds an ordered log of Messages, each with a sequence number, monotonic per session;
  \<open>submit\<close> fails with SessionNotFound for an unknown session and with TurnInProgress
  while a Turn is active, otherwise marks a Turn active; on completion the manager
  appends an assistant Message to the log and clears the Turn; the first assistant
  Message of a session has sequence 1; \<open>end\<close> releases the session and is idempotent.
\<close>

record logged_message =
  msg_role :: jsval
  msg_content :: jsval
  msg_audio :: jsval
  seq :: nat

record session =
  log :: "logged_message list"
  turn_active :: bool

type_synonym session_manager = "nat \<rightharpoonup> session"

datatype submit_error = SessionNotFound | TurnInProgress

text \<open>
  Modelled from the spec: \<open>create\<close> of the SessionManager (absent from the sources)
  allocates a session, with an empty log and no Turn, under an id no session has.
\<close>

definition create :: "nat \<Rightarrow> session_manager \<Rightarrow> session_manager" where
  "create sid m = (case m sid of None \<Rightarrow> m(sid \<mapsto> \<lparr>log = [], turn_active = False\<rparr>) | Some s \<Rightarrow> m)"

text \<open>
  Modelled from the spec: \<open>submit\<close> of the SessionManager (absent from the sources) fails
  with SessionNotFound for an unknown session and with TurnInProgress while a Turn is
  active; otherwise it marks a Turn active.
\<close>

definition submit :: "nat \<Rightarrow> session_manager \<Rightarrow> submit_error + session_manager" where
  "submit sid m =
     (case m sid of
        None \<Rightarrow> Inl SessionNotFound
      | Some s \<Rightarrow>
          if turn_active s then Inl TurnInProgress
          else Inr (m(sid \<mapsto> s\<lparr>turn_active := True\<rparr>)))"

text \<open>
  Modelled from the spec: the sequence number the SessionManager (absent from the
  sources) gives the next Message of a log; sequence numbers are monotonic per session,
  gapless and never reused, and the first assistant Message has sequence 1.
\<close>

definition next_seq :: "logged_message list \<Rightarrow> nat" where
  "next_seq l = (case l of [] \<Rightarrow> 1 | _ \<Rightarrow> Suc (seq (last l)))"

text \<open>
  Modelled from the spec: the completion of a Turn in the SessionManager (absent from
  the sources) appends an assistant Message to the session log and clears the Turn.
\<close>

definition complete :: "nat \<Rightarrow> jsval \<Rightarrow> jsval \<Rightarrow> session_manager \<Rightarrow> session_manager" where
  "complete sid text au m =
     (case m sid of
        None \<Rightarrow> m
      | Some s \<Rightarrow>
          if turn_active s then
            m(sid \<mapsto>
                \<lparr>log = log s @ [\<lparr>msg_role = JStr ''assistant'', msg_content = text,
                                   msg_audio = au, seq = next_seq (log s)\<rparr>],
                 turn_active = False\<rparr>)
          else m)"

text \<open>
  Modelled from the spec: \<open>end\<close> of the SessionManager (absent from the sources) releases
  the session; it is idempotent.
\<close>

definition end_session :: "nat \<Rightarrow> session_manager \<Rightarrow> session_manager" where
  "end_session sid m = m(sid := None)"

text \<open>The operations of the manager, and a run of them from the manager with no session.\<close>

datatype manager_op = Create nat | Submit nat | Complete nat jsval jsval | End nat

fun apply_op :: "manager_op \<Rightarrow> session_manager \<Rightarrow> session_manager" where
  "apply_op (Create sid) m = create sid m"
| "apply_op (Submit sid) m = (case submit sid m of Inl e \<Rightarrow> m | Inr m' \<Rightarrow> m')"
| "apply_op (Complete sid text au) m = complete sid text au m"
| "apply_op (End sid) m = end_session sid m"

definition run_manager :: "manager_op list \<Rightarrow> session_manager" where
  "run_manager ops = fold apply_op ops Map.empty"

definition seqs :: "session \<Rightarrow> nat list" where
  "seqs s = map seq (log s)"

definition log_ok :: "session \<Rightarrow> bool" where
  "log_ok s = (seqs s = [1..<Suc (length (log s))])"

section \<open>Properties\<close>

subsection \<open>Basic facts\<close>

lemma self_emit [simp]: "self (emit e w) = self w"
  by (simp add: emit_def)

lemma timers_emit [simp]: "timers (emit e w) = timers w"
  by (simp add: emit_def)

lemma now_emit [simp]: "now (emit e w) = now w"
  by (simp add: emit_def)

lemma trace_emit [simp]: "trace (emit e w) = trace w @ [e]"
  by (simp add: emit_def)

lemma started_world_eq:
  "started_world =
     \<lparr>self = \<lparr>sessionId = JStr ''s1'',
               eventSource = Some \<lparr>url_session = JStr ''s1'', readyState = CONNECTING\<rparr>,
               isActive = True,
               mediaRecorder = Some \<lparr>state = Inactive, stream = [Live]\<rparr>,
               audioChunks = []\<rparr>,
      trace = [ConsoleLog ''Initializing Server-Side Live Voice Client...'',
               Fetch CreateSession, NewEventSource (JStr ''s1''), GetUserMedia,
               NewMediaRecorder, ConsoleLog ''Audio capture setup complete'',
               ConsoleLog ''Live Voice Client initialized successfully''],
      timers = [], now = 0\<rparr>"
  by (simp add: started_world_def initialize_def fresh_world_def constructor_def
      setupEventStream_def setupAudioCapture_def emit_def)

lemma fetches_append [simp]: "fetches (xs @ ys) = fetches xs @ fetches ys"
  by (induction xs rule: fetches.induct) simp_all

lemma timeouts_append [simp]: "timeouts (xs @ ys) = timeouts xs @ timeouts ys"
  by (induction xs rule: timeouts.induct) simp_all

lemma streams_opened_append [simp]:
  "streams_opened (xs @ ys) = streams_opened xs @ streams_opened ys"
  by (induction xs rule: streams_opened.induct) simp_all

lemma errors_shown_append [simp]: "errors_shown (xs @ ys) = errors_shown xs @ errors_shown ys"
  by (induction xs rule: errors_shown.induct) simp_all

lemma reads_started_append [simp]:
  "reads_started (xs @ ys) = reads_started xs @ reads_started ys"
  by (induction xs rule: reads_started.induct) simp_all

lemma releases_append [simp]: "releases (xs @ ys) = releases xs @ releases ys"
  by (induction xs rule: releases.induct) simp_all

lemma uncaught_append [simp]: "uncaught (xs @ ys) = uncaught xs @ uncaught ys"
  by (induction xs rule: uncaught.induct) simp_all

lemma releases_TrackStop [simp]: "releases (map TrackStop ns) = map TrackStop ns"
  by (induction ns) simp_all

lemma uncaught_TrackStop [simp]: "uncaught (map TrackStop ns) = []"
  by (induction ns) simp_all

lemma recording_world_eq:
  "recording_world =
     started_world\<lparr>self := (self started_world)\<lparr>mediaRecorder :=
                        Some \<lparr>state = Recording, stream = [Live]\<rparr>\<rparr>,
       trace := trace started_world @ [RecorderStart, ConsoleLog ''Recording started'']\<rparr>"
  by (simp add: recording_world_def startRecording_def MediaRecorder_start_def
      stream_active_def started_world_eq emit_def)

subsection \<open>Recording guards\<close>

lemma startRecording_eq:
  "startRecording w =
     (if can_start w then
        (if stream_live w then
           (Inr True,
            emit (ConsoleLog ''Recording started'')
              (emit RecorderStart
                 (set_recorder_state Recording (w\<lparr>self := (self w)\<lparr>audioChunks := []\<rparr>\<rparr>))))
         else (Inl NotSupportedError, w\<lparr>self := (self w)\<lparr>audioChunks := []\<rparr>\<rparr>))
      else (Inr False, w))"
  by (auto simp: startRecording_def can_start_def stream_live_def set_recorder_state_def
      MediaRecorder_start_def emit_def split: option.splits)

lemma stopRecording_eq:
  "stopRecording w =
     (if can_stop w then
        (Inr True,
         emit (ConsoleLog ''Recording stopped'')
           (emit RecorderStop (set_recorder_state Inactive w)))
      else (Inr False, w))"
  by (auto simp: stopRecording_def can_stop_def set_recorder_state_def
      MediaRecorder_stop_def emit_def split: option.splits)

lemma stream_live_startRecording: "stream_live w \<Longrightarrow> stream_live (snd (startRecording w))"
  by (auto simp: startRecording_eq stream_live_def set_recorder_state_def split: option.splits)

lemma stream_live_stopRecording: "stream_live w \<Longrightarrow> stream_live (snd (stopRecording w))"
  by (auto simp: stopRecording_eq stream_live_def set_recorder_state_def split: option.splits)

lemma run_recording_calls_total: "stream_live w \<Longrightarrow> fst (run_recording_calls cs w) = None"
proof (induction cs arbitrary: w)
  case Nil
  show ?case by simp
next
  case (Cons c cs)
  show ?case
  proof (cases c)
    case Start
    obtain r w' where s: "startRecording w = (r, w')" by (cases "startRecording w")
    have "stream_live w'" using stream_live_startRecording [OF Cons.prems] s by simp
    moreover have "\<exists>b. r = Inr b" using s Cons.prems by (auto simp: startRecording_eq split: if_splits)
    ultimately show ?thesis using Start s Cons.IH by auto
  next
    case Stop
    obtain r w' where s: "stopRecording w = (r, w')" by (cases "stopRecording w")
    have "stream_live w'" using stream_live_stopRecording [OF Cons.prems] s by simp
    moreover have "\<exists>b. r = Inr b" using s by (auto simp: stopRecording_eq split: if_splits)
    ultimately show ?thesis using Stop s Cons.IH by auto
  qed
qed

text \<open>
  C10, as amended. \<open>startRecording\<close> clears the chunk buffer, starts the recorder and
  returns true when a recorder exists, is inactive and has an active stream; with no
  recorder, or a recorder that is not inactive, it returns false and changes nothing.
  \<open>stopRecording\<close> stops the recorder and returns true exactly when a recorder exists
  and is recording; otherwise it returns false and changes nothing. While the stream
  of the recorder is active, no sequence of the two calls, in any order, raises an
  error. On an inactive recorder whose stream has no live track, \<open>startRecording\<close>
  empties the buffer and raises the \<open>NotSupportedError\<close> of \<open>start()\<close>.
\<close>

theorem recording_guards:
  "startRecording w =
     (if can_start w then
        (if stream_live w then
           (Inr True,
            emit (ConsoleLog ''Recording started'')
              (emit RecorderStart
                 (set_recorder_state Recording (w\<lparr>self := (self w)\<lparr>audioChunks := []\<rparr>\<rparr>))))
         else (Inl NotSupportedError, w\<lparr>self := (self w)\<lparr>audioChunks := []\<rparr>\<rparr>))
      else (Inr False, w))
   \<and> stopRecording w =
     (if can_stop w then
        (Inr True,
         emit (ConsoleLog ''Recording stopped'')
           (emit RecorderStop (set_recorder_state Inactive w)))
      else (Inr False, w))
   \<and> (stream_live w \<longrightarrow> fst (run_recording_calls cs w) = None)"
  using startRecording_eq stopRecording_eq run_recording_calls_total by blast

theorem recording_guards_witness:
  "stream_live started_world
   \<and> startRecording started_world = (Inr True, recording_world)
   \<and> stopRecording started_world = (Inr False, started_world)
   \<and> fst (run_recording_calls [Stop, Start, Start, Stop, Stop] started_world) = None"
proof -
  have l: "stream_live started_world"
    by (simp add: started_world_eq stream_live_def stream_active_def)
  have r: "fst (startRecording started_world) = Inr True"
    using l by (simp add: startRecording_eq can_start_def started_world_eq)
  have s: "\<not> can_stop started_world" by (simp add: can_stop_def started_world_eq)
  show ?thesis
    using recording_guards [of started_world "[Stop, Start, Start, Stop, Stop]"] l r s
    by (simp add: recording_world_def prod_eq_iff)
qed

text \<open>
  The claim as stated fails: after a successful \<open>end\<close> the recorder is kept, inactive,
  with every track of its stream stopped; the guard of \<open>startRecording\<close> passes and
  \<open>start()\<close> raises.
\<close>

theorem start_after_end_counterexample:
  "mediaRecorder (self ended_world) = Some \<lparr>state = Inactive, stream = [Ended]\<rparr>
   \<and> fst (startRecording ended_world) = Inl NotSupportedError
   \<and> fst (run_recording_calls [Start] ended_world) = Some NotSupportedError"
  by (simp add: ended_world_def started_world_eq end_call_def end_start_def end_resume_def
      stopRecording_def stop_tracks_def startRecording_def MediaRecorder_start_def
      stream_active_def emit_def)

subsection \<open>Ending a session\<close>







lemma self_fold_emit: "self (fold (\<lambda>i. emit (f i)) xs w) = self w"
  by (induction xs arbitrary: w) simp_all









lemma ended_world_eq:
  "ended_world =
     started_world\<lparr>self := \<lparr>sessionId = JNull, eventSource = None, isActive = False,
                             mediaRecorder = Some \<lparr>state = Inactive, stream = [Ended]\<rparr>,
                             audioChunks = []\<rparr>,
       trace := trace started_world @
         [EventSourceClose, Fetch (EndSession (JStr ''s1'')), TrackStop 0,
          ConsoleLog ''Live voice session ended'']\<rparr>"
  by (simp add: ended_world_def started_world_eq end_call_def end_start_def end_resume_def
      stopRecording_def stop_tracks_def emit_def)



subsection \<open>Release of the audio device\<close>

text \<open>
  C2. The claim fails on the code. When the termination request of \<open>end\<close> is rejected,
  the \<open>catch\<close> only logs: the track of the stream stays live and no \<open>track.stop()\<close> is
  ever called, while the same call with the request answered stops the track. And
  when \<open>initialize\<close> fails because the recorder cannot be constructed, the stream
  acquired is referenced by nothing, and a later \<open>end\<close>, even a successful one, stops
  no track.
\<close>

theorem end_failure_keeps_device:
  "mediaRecorder (self (end_call (Rejected ''Failed to fetch'') started_world))
     = Some \<lparr>state = Inactive, stream = [Live]\<rparr>
   \<and> tracks_stopped (trace (end_call (Rejected ''Failed to fetch'') started_world)) = []
   \<and> mediaRecorder (self (end_call (Resolved ()) started_world))
     = Some \<lparr>state = Inactive, stream = [Ended]\<rparr>
   \<and> tracks_stopped (trace (end_call (Resolved ()) started_world)) = [0]
   \<and> trace failed_start_world
     = [ConsoleLog ''Initializing Server-Side Live Voice Client...'', Fetch CreateSession,
        NewEventSource (JStr ''s1''), GetUserMedia,
        ConsoleError ''Failed to setup audio capture:'',
        ConsoleError ''Failed to initialize Live Voice Client:'',
        ConsoleError ''Live Voice Error:'', ShowError (JStr ''NotSupportedError'')]
   \<and> tracks_stopped (trace (end_call (Resolved ()) failed_start_world)) = []"
  by (simp add: started_world_eq failed_start_world_def fresh_world_def constructor_def
      initialize_def setupEventStream_def setupAudioCapture_def showError_def
      end_call_def end_start_def end_resume_def stopRecording_def stop_tracks_def emit_def)

subsection \<open>Submissions\<close>

lemma self_handle_response: "self (handle_response d w) = self w"
  by (simp add: handle_response_def playAudio_def displayResponse_def Let_def)

lemma sendTextMessage_start_eq:
  "truthy (sessionId (self w)) \<Longrightarrow> trim text \<noteq> [] \<Longrightarrow>
     sendTextMessage_start text w
       = (AwaitingFetch (PostText (sessionId (self w)) text),
          emit (Fetch (PostText (sessionId (self w)) text)) w)"
  by (simp add: sendTextMessage_start_def)

lemma sendTextMessage_start_blank: "trim text = [] \<Longrightarrow> sendTextMessage_start text w = (Returned, w)"
  by (simp add: sendTextMessage_start_def)

lemma trim_examples:
  "trim (utf16 ''hello'') = utf16 ''hello''"
  "trim (utf16 ''again'') = utf16 ''again''"
  "utf16 ''hello'' \<noteq> []" "utf16 ''again'' \<noteq> []"
  "trim [160, 8195, 32] = []"
  by (simp_all add: trim_def js_whitespace_def utf16_def)

text \<open>
  C3, as amended. The client keeps no record of a Turn in flight. With a session id
  set, \<open>sendTextMessage\<close> with a text that is not blank sends its request at once, in
  every state, so a second submission made before the first response has arrived puts
  a second request in flight; a blank text is dropped; a recorded blob is posted as
  soon as its read is done. A response, when it arrives, is handled on its own: its
  audio is played if it has any, then its text is displayed if it has any, and no
  field of the client changes.
\<close>

theorem submissions_not_serialized:
  "(truthy (sessionId (self w)) \<and> trim text \<noteq> [] \<longrightarrow>
      sendTextMessage_start text w
        = (AwaitingFetch (PostText (sessionId (self w)) text),
           emit (Fetch (PostText (sessionId (self w)) text)) w))
   \<and> (truthy (sessionId (self w)) \<and> trim text \<noteq> [] \<and> trim text2 \<noteq> [] \<longrightarrow>
      fetches (trace (snd (sendTextMessage_start text2 (snd (sendTextMessage_start text w)))))
        = fetches (trace w) @
            [PostText (sessionId (self w)) text, PostText (sessionId (self w)) text2])
   \<and> (trim text = [] \<longrightarrow> sendTextMessage_start text w = (Returned, w))
   \<and> (truthy (sessionId (self w)) \<longrightarrow>
      read_done (sendAudioToServer_start audioBlob w)
        = (AwaitingFetch (PostAudio (sessionId (self w)) audioBlob),
           emit (Fetch (PostAudio (sessionId (self w)) audioBlob))
             (emit (ReadAsDataURL audioBlob) w)))
   \<and> sendTextMessage_resume (Resolved d) w = handle_response d w
   \<and> reader_resume (Resolved d) w = handle_response d w
   \<and> self (handle_response d w) = self w
   \<and> trace (handle_response d w)
        = trace w @ (if truthy (r_audio d) then [PlayAudio (r_audio d)] else [])
                  @ (if truthy (r_text d) then [DisplayResponse (r_text d)] else [])"
  by (simp add: sendTextMessage_start_eq sendTextMessage_start_blank self_handle_response)
     (simp add: sendAudioToServer_start_def read_done_def
      reader_onloadend_def sendTextMessage_resume_def reader_resume_def
      handle_response_def playAudio_def displayResponse_def Let_def)

theorem submissions_not_serialized_witness:
  "truthy (sessionId (self started_world)) \<and> trim (utf16 ''hello'') \<noteq> []
   \<and> trim (utf16 ''again'') \<noteq> []
   \<and> sendTextMessage_start (utf16 ''hello'') started_world
       = (AwaitingFetch (PostText (JStr ''s1'') (utf16 ''hello'')),
          emit (Fetch (PostText (JStr ''s1'') (utf16 ''hello''))) started_world)
   \<and> fetches (trace (snd (sendTextMessage_start (utf16 ''again'')
                            (snd (sendTextMessage_start (utf16 ''hello'') started_world)))))
       = [CreateSession, PostText (JStr ''s1'') (utf16 ''hello''),
          PostText (JStr ''s1'') (utf16 ''again'')]
   \<and> trim [160, 8195, 32] = []
   \<and> sendTextMessage_start [160, 8195, 32] started_world = (Returned, started_world)
   \<and> read_done (sendAudioToServer_start [1, 2, 3] started_world)
       = (AwaitingFetch (PostAudio (JStr ''s1'') [1, 2, 3]),
          emit (Fetch (PostAudio (JStr ''s1'') [1, 2, 3]))
            (emit (ReadAsDataURL [1, 2, 3]) started_world))"
proof -
  have a: "truthy (sessionId (self started_world))"
    and s: "sessionId (self started_world) = JStr ''s1''"
    and f: "fetches (trace started_world) = [CreateSession]"
    by (simp_all add: started_world_eq)
  have b: "trim (utf16 ''hello'') \<noteq> []" "trim (utf16 ''again'') \<noteq> []"
    by (simp_all add: trim_examples)
  have c: "trim [160, 8195, 32] = []" by (rule trim_examples)
  have t1: "sendTextMessage_start [160, 8195, 32] started_world = (Returned, started_world)"
    using submissions_not_serialized [of started_world "[160, 8195, 32]" "[]" "[]"
        "\<lparr>r_audio = JNull, r_text = JNull\<rparr>"] c by blast
  show ?thesis
    using submissions_not_serialized [of started_world "utf16 ''hello''" "utf16 ''again''"
        "[1, 2, 3]" "\<lparr>r_audio = JNull, r_text = JNull\<rparr>"] a b c t1
    unfolding s f append.simps by blast
qed

text \<open>
  The claim as stated fails: the second submission is not refused, its request goes
  out while the first is still awaiting its response.
\<close>

theorem second_submission_counterexample:
  "sendTextMessage_start (utf16 ''again'')
       (snd (sendTextMessage_start (utf16 ''hello'') started_world))
     = (AwaitingFetch (PostText (JStr ''s1'') (utf16 ''again'')),
        emit (Fetch (PostText (JStr ''s1'') (utf16 ''again'')))
          (emit (Fetch (PostText (JStr ''s1'') (utf16 ''hello''))) started_world))"
  by (simp add: sendTextMessage_start_def trim_examples) (simp add: started_world_eq)

lemma send_guards:
  "\<not> truthy (sessionId (self w)) \<Longrightarrow>
     sendTextMessage_start text w = (Returned, w)
   \<and> sendAudioToServer_start audioBlob w = (Returned, w)"
  by (simp add: sendTextMessage_start_def sendAudioToServer_start_def)

text \<open>
  C9. The claim fails on the code. The guards at the entry of \<open>sendTextMessage\<close> and of
  \<open>sendAudioToServer\<close> do return, with no request and no change, while \<open>sessionId\<close> is
  null, as they do in the world after \<open>end\<close>. But \<open>sendAudioToServer\<close> sends nothing
  itself: the request is made by the reader's \<open>onloadend\<close> callback, which reads
  \<open>this.sessionId\<close> again and has no guard. A blob handed over while the session was
  set, whose read ends after \<open>end\<close> has cleared the session id, is posted with the
  null id.
\<close>

theorem audio_posted_after_end:
  "sendAudioToServer_start [1, 2, 3] started_world
     = (AwaitingReader [1, 2, 3], emit (ReadAsDataURL [1, 2, 3]) started_world)
   \<and> sessionId (self (end_call (Resolved ()) (emit (ReadAsDataURL [1, 2, 3]) started_world)))
     = JNull
   \<and> fst (read_done (AwaitingReader [1, 2, 3],
         end_call (Resolved ()) (emit (ReadAsDataURL [1, 2, 3]) started_world)))
     = AwaitingFetch (PostAudio JNull [1, 2, 3])
   \<and> fetches (trace (snd (read_done (AwaitingReader [1, 2, 3],
         end_call (Resolved ()) (emit (ReadAsDataURL [1, 2, 3]) started_world)))))
     = [CreateSession, EndSession (JStr ''s1''), PostAudio JNull [1, 2, 3]]
   \<and> sendAudioToServer_start [1, 2, 3] ended_world = (Returned, ended_world)"
  by (simp add: sendAudioToServer_start_def read_done_def reader_onloadend_def ended_world_eq)
     (simp add: started_world_eq end_call_def end_start_def end_resume_def stopRecording_def
      stop_tracks_def emit_def)

subsection \<open>Pushed events\<close>

lemma self_handleServerMessage: "self (handleServerMessage d w) = self w"
  by (simp add: handleServerMessage_def displayResponse_def playAudio_def
      displayUserMessage_def showError_def Let_def split: option.splits)

lemma timers_handleServerMessage: "timers (handleServerMessage d w) = timers w"
  by (simp add: handleServerMessage_def displayResponse_def playAudio_def
      displayUserMessage_def showError_def Let_def split: option.splits)

lemma handle_heartbeat:
  "ev_type d = JStr ''heartbeat'' \<Longrightarrow>
     handleServerMessage d w = emit (ConsoleLog ''Heartbeat received'') w"
  by (simp add: handleServerMessage_def)

text \<open>
  C7, as amended. On an assistant message the client displays the content and then,
  if the message has audio, starts its playback. The client has no conversational
  state: no pushed event changes a field of the client or sets a timer, so there is
  neither a transition to a responding state nor a return from it when playback
  completes. A heartbeat is only logged.
\<close>

theorem assistant_message_handling:
  "(ev_type d = JStr ''message'' \<and> ev_data d = Some m \<and> role m = JStr ''assistant'' \<longrightarrow>
      handleServerMessage d w =
        (if truthy (audio m)
         then emit (PlayAudio (audio m)) (emit (DisplayResponse (content m)) w)
         else emit (DisplayResponse (content m)) w))
   \<and> (ev_type d = JStr ''heartbeat'' \<longrightarrow>
        handleServerMessage d w = emit (ConsoleLog ''Heartbeat received'') w)
   \<and> self (handleServerMessage d w) = self w
   \<and> timers (handleServerMessage d w) = timers w"
  by (simp add: self_handleServerMessage timers_handleServerMessage handle_heartbeat)
     (simp add: handleServerMessage_def displayResponse_def playAudio_def Let_def)

theorem assistant_message_handling_witness:
  "handleServerMessage assistant_event started_world
     = emit (PlayAudio (JStr ''QUJD'')) (emit (DisplayResponse (JStr ''Hi there'')) started_world)
   \<and> handleServerMessage heartbeat_event started_world
     = emit (ConsoleLog ''Heartbeat received'') started_world"
  using assistant_message_handling [of assistant_event
      "\<lparr>role = JStr ''assistant'', content = JStr ''Hi there'', audio = JStr ''QUJD''\<rparr>"
      started_world]
    assistant_message_handling [of heartbeat_event undefined started_world]
  by (simp add: assistant_event_def heartbeat_event_def)

text \<open>
  The claim as stated fails: after an assistant message with audio the client is in
  the state it was in; the message was displayed and its playback started, nothing
  else.
\<close>

theorem no_responding_state_counterexample:
  "self (onmessage (Some assistant_event) started_world) = self started_world
   \<and> trace (onmessage (Some assistant_event) started_world)
       = trace started_world @ [DisplayResponse (JStr ''Hi there''), PlayAudio (JStr ''QUJD'')]"
  by (simp add: onmessage_def assistant_event_def handleServerMessage_def displayResponse_def
      playAudio_def)

subsection \<open>Connection loss\<close>

lemma elapse_no_timers: "timers w = [] \<Longrightarrow> elapse dt w = w\<lparr>now := now w + dt\<rparr>"
  by (simp add: elapse_def)

lemma timers_sse_error:
  "eventSource (self w) = Some es \<Longrightarrow> readyState es \<noteq> CLOSED \<Longrightarrow>
     timers (sse_error rs w) = (if rs = CLOSED then timers w @ [now w + 3000] else timers w)"
  by (simp add: sse_error_def onerror_def reconnect_def Let_def)

text \<open>
  C5, as amended. The client keeps no heartbeat timer. A heartbeat is only logged, no
  pushed event sets a timer, and while no timer is pending the passing of any time
  without events changes nothing but the clock: the absence of heartbeats is never
  noticed. The one trigger of reconnection is an error event of the stream that
  leaves the event source closed; it sets the timer of \<open>reconnect\<close>, 3000 ms ahead,
  and an error event that leaves the source connecting sets none.
\<close>

theorem loss_detection_only_on_error:
  "(ev_type d = JStr ''heartbeat'' \<longrightarrow>
      handleServerMessage d w = emit (ConsoleLog ''Heartbeat received'') w)
   \<and> timers (onmessage parsed w) = timers w
   \<and> (timers w = [] \<longrightarrow> elapse dt w = w\<lparr>now := now w + dt\<rparr>)
   \<and> (eventSource (self w) = Some es \<and> readyState es \<noteq> CLOSED \<longrightarrow>
        timers (sse_error rs w) = (if rs = CLOSED then timers w @ [now w + 3000] else timers w))"
  by (simp add: handle_heartbeat elapse_no_timers timers_sse_error onmessage_def
      timers_handleServerMessage split: option.splits)

theorem loss_detection_only_on_error_witness:
  "handleServerMessage heartbeat_event started_world
     = emit (ConsoleLog ''Heartbeat received'') started_world
   \<and> elapse 1000000 started_world = started_world\<lparr>now := 1000000\<rparr>
   \<and> timers (sse_error CLOSED started_world) = [3000]
   \<and> timers (sse_error CONNECTING started_world) = []"
  using loss_detection_only_on_error [of heartbeat_event started_world None 1000000
      "\<lparr>url_session = JStr ''s1'', readyState = CONNECTING\<rparr>" CLOSED]
    loss_detection_only_on_error [of heartbeat_event started_world None 1000000
      "\<lparr>url_session = JStr ''s1'', readyState = CONNECTING\<rparr>" CONNECTING]
  by (simp add: heartbeat_event_def started_world_eq)

text \<open>
  The claim as stated fails: after a heartbeat, 1000000 ms without any event leave the
  client as it was, the stream not reopened and no timer set.
\<close>

theorem heartbeat_silence_counterexample:
  "elapse 1000000 (onmessage (Some heartbeat_event) started_world)
     = started_world\<lparr>trace := trace started_world @ [ConsoleLog ''Heartbeat received''],
                     now := 1000000\<rparr>"
  by (simp add: onmessage_def heartbeat_event_def handleServerMessage_def elapse_def emit_def
      started_world_eq)

lemma loss_step:
  assumes "connected w"
  shows "elapse 3000 (sse_error CLOSED w) =
     w\<lparr>self := (self w)\<lparr>eventSource :=
            Some \<lparr>url_session = sessionId (self w), readyState = CONNECTING\<rparr>\<rparr>,
       trace := trace w @ [ConsoleError ''SSE Error:'', ConsoleLog ''Attempting to reconnect...'',
                           SetTimeout 3000, NewEventSource (sessionId (self w))],
       now := now w + 3000\<rparr>"
  using assms
  by (auto simp: connected_def sse_error_def onerror_def reconnect_def elapse_def
      setupEventStream_def emit_def Let_def split: option.splits)

lemma connected_loss_step: "connected w \<Longrightarrow> connected (elapse 3000 (sse_error CLOSED w))"
  by (simp add: loss_step) (simp add: connected_def)

lemma connection_losses_trace:
  "connected w \<Longrightarrow>
     connected (connection_losses n w)
   \<and> sessionId (self (connection_losses n w)) = sessionId (self w)
   \<and> timeouts (trace (connection_losses n w)) = timeouts (trace w) @ replicate n 3000
   \<and> streams_opened (trace (connection_losses n w))
       = streams_opened (trace w) @ replicate n (sessionId (self w))
   \<and> errors_shown (trace (connection_losses n w)) = errors_shown (trace w)"
proof (induction n arbitrary: w)
  case 0
  then show ?case by simp
next
  case (Suc n)
  let ?w = "elapse 3000 (sse_error CLOSED w)"
  have c: "connected ?w" using Suc.prems by (rule connected_loss_step)
  have s: "sessionId (self ?w) = sessionId (self w)"
    and t: "trace ?w = trace w @ [ConsoleError ''SSE Error:'',
                           ConsoleLog ''Attempting to reconnect...'',
                           SetTimeout 3000, NewEventSource (sessionId (self w))]"
    using Suc.prems by (simp_all add: loss_step)
  from Suc.IH [OF c] show ?case
    by (simp add: s t replicate_app_Cons_same)
qed

lemma connected_started: "connected started_world"
  by (simp add: started_world_eq connected_def)

text \<open>
  C4, as amended. After a connection loss (an error event that leaves the stream
  closed) the client schedules one attempt to reopen the stream, 3000 ms later. The
  delay is the same for every attempt, so the delays do not decrease and stay at
  3000 ms, but do not grow either. There is no attempt budget and no Error state:
  after any number \<open>n\<close> of losses in a row the client has made \<open>n\<close> attempts, each for
  the same session id, has shown no error and is connected to a new stream again.
\<close>

theorem reconnect_fixed_delay:
  "connected w \<Longrightarrow>
     timeouts (trace (connection_losses n w)) = timeouts (trace w) @ replicate n 3000
   \<and> streams_opened (trace (connection_losses n w))
       = streams_opened (trace w) @ replicate n (sessionId (self w))
   \<and> errors_shown (trace (connection_losses n w)) = errors_shown (trace w)
   \<and> connected (connection_losses n w)"
  using connection_losses_trace by blast

theorem reconnect_fixed_delay_witness:
  "connected started_world
   \<and> timeouts (trace (connection_losses 3 started_world)) = [3000, 3000, 3000]
   \<and> streams_opened (trace (connection_losses 3 started_world))
       = [JStr ''s1'', JStr ''s1'', JStr ''s1'', JStr ''s1'']
   \<and> errors_shown (trace (connection_losses 3 started_world)) = []"
  using reconnect_fixed_delay [of started_world 3] connected_started
  by (simp add: started_world_eq numeral_3_eq_3)

text \<open>
  The claim as stated fails: no budget bounds the number of attempts, the second
  delay equals the first, and the client shows no error however many losses it saw.
\<close>

theorem no_retry_budget_counterexample:
  "\<not> (\<exists>budget. \<forall>n. length (timeouts (trace (connection_losses n started_world))) \<le> budget)
   \<and> timeouts (trace (connection_losses 2 started_world)) = [3000, 3000]
   \<and> errors_shown (trace (connection_losses 2 started_world)) = []"
proof -
  have "length (timeouts (trace (connection_losses n started_world))) = n" for n
    using connection_losses_trace [OF connected_started, of n] by (simp add: started_world_eq)
  then have "\<not> (\<exists>budget. \<forall>n. length (timeouts (trace (connection_losses n started_world))) \<le> budget)"
    by (metis Suc_n_not_le_n)
  moreover have "timeouts (trace (connection_losses 2 started_world)) = [3000, 3000]"
    "errors_shown (trace (connection_losses 2 started_world)) = []"
    using connection_losses_trace [OF connected_started, of 2]
    by (simp_all add: started_world_eq numeral_2_eq_2)
  ultimately show ?thesis by simp
qed

subsection \<open>Utterances\<close>

lemma record_utterance_eq:
  assumes "can_record w"
  shows "record_utterance data w =
     (AwaitingReader data,
      w\<lparr>self := (self w)\<lparr>audioChunks := []\<rparr>,
        trace := trace w @ [RecorderStart, ConsoleLog ''Recording started'', RecorderStop,
                            ConsoleLog ''Recording stopped'', ReadAsDataURL data]\<rparr>)"
  using assms
  by (cases "mediaRecorder (self w)")
     (auto simp: record_utterance_def can_record_def startRecording_eq stopRecording_eq
      can_start_def can_stop_def stream_live_def set_recorder_state_def recorder_stopped_def
      ondataavailable_def onstop_def Blob_def sendAudioToServer_start_def emit_def)

lemma can_record_update:
  "can_record w \<Longrightarrow> can_record (w\<lparr>self := (self w)\<lparr>audioChunks := cs\<rparr>, trace := tr\<rparr>)"
  by (simp add: can_record_def can_start_def stream_live_def)

lemma recordings_trace:
  "can_record w \<Longrightarrow>
     can_record (recordings ds w)
   \<and> sessionId (self (recordings ds w)) = sessionId (self w)
   \<and> reads_started (trace (recordings ds w)) = reads_started (trace w) @ ds
   \<and> fetches (trace (recordings ds w)) = fetches (trace w)"
proof (induction ds arbitrary: w)
  case Nil
  then show ?case by (simp add: recordings_def)
next
  case (Cons d ds)
  let ?w = "snd (record_utterance d w)"
  have u: "?w = w\<lparr>self := (self w)\<lparr>audioChunks := []\<rparr>,
        trace := trace w @ [RecorderStart, ConsoleLog ''Recording started'', RecorderStop,
                            ConsoleLog ''Recording stopped'', ReadAsDataURL d]\<rparr>"
    using Cons.prems by (simp add: record_utterance_eq)
  have c: "can_record ?w" unfolding u using Cons.prems by (rule can_record_update)
  have r: "recordings (d # ds) w = recordings ds ?w" by (simp add: recordings_def)
  from Cons.IH [OF c] show ?case unfolding r by (simp add: u)
qed

lemma read_ends_eq:
  "read_ends b w = emit (Fetch (PostAudio (sessionId (self w)) b)) w"
  by (simp add: read_ends_def reader_onloadend_def)

lemma reads_end_trace:
  "sessionId (self (fold read_ends bs w)) = sessionId (self w)
   \<and> fetches (trace (fold read_ends bs w))
       = fetches (trace w) @ map (PostAudio (sessionId (self w))) bs"
  by (induction bs arbitrary: w) (simp_all add: read_ends_eq)

lemma utterance_eq:
  assumes "can_record w"
  shows "utterance data w =
     w\<lparr>self := (self w)\<lparr>audioChunks := []\<rparr>,
       trace := trace w @ [RecorderStart, ConsoleLog ''Recording started'', RecorderStop,
                           ConsoleLog ''Recording stopped'', ReadAsDataURL data,
                           Fetch (PostAudio (sessionId (self w)) data)]\<rparr>"
  using assms
  by (simp add: utterance_def record_utterance_eq read_done_def reader_onloadend_def emit_def)

lemma utterances_fetches:
  "can_record w \<Longrightarrow>
     fetches (trace (fold utterance ds w))
       = fetches (trace w) @ map (PostAudio (sessionId (self w))) ds"
proof (induction ds arbitrary: w)
  case Nil
  show ?case by simp
next
  case (Cons d ds)
  let ?w = "utterance d w"
  have u: "?w = w\<lparr>self := (self w)\<lparr>audioChunks := []\<rparr>,
       trace := trace w @ [RecorderStart, ConsoleLog ''Recording started'', RecorderStop,
                           ConsoleLog ''Recording stopped'', ReadAsDataURL d,
                           Fetch (PostAudio (sessionId (self w)) d)]\<rparr>"
    using Cons.prems by (rule utterance_eq)
  have c: "can_record ?w" unfolding u using Cons.prems by (rule can_record_update)
  have s: "sessionId (self ?w) = sessionId (self w)" by (simp add: u)
  have f: "fetches (trace ?w) = fetches (trace w) @ [PostAudio (sessionId (self w)) d]"
    by (simp add: u)
  from Cons.IH [OF c] show ?case by (simp add: s f)
qed

lemma end_while_recording:
  assumes "can_stop w" "truthy (sessionId (self w))"
  shows "fetches (trace (snd (read_done (recorder_stopped data (snd (end_start w))))))
       = fetches (trace w) @
           [EndSession (sessionId (self w)),
            PostAudio (sessionId (self w)) (Blob (audioChunks (self w)) @ data)]"
  using assms
  by (cases "mediaRecorder (self w)")
     (auto simp: end_start_def stopRecording_eq can_stop_def set_recorder_state_def
      recorder_stopped_def ondataavailable_def onstop_def Blob_def
      sendAudioToServer_start_def read_done_def reader_onloadend_def Let_def
      split: option.splits)

text \<open>
  C6, as amended. With a session id set and an active stream, the recordings made one
  after the other, each started by \<open>startRecording\<close> and stopped by \<open>stopRecording\<close>, are
  each handed to a reader once, in the order recorded, and nothing is posted before a
  read ends; each read that ends posts its blob once, so the posts go out in the order
  in which the reads end, which is the order recorded when every read ends before the
  next recording is stopped. A recording in progress when \<open>end\<close> is called is not
  discarded: \<open>end\<close> stops the recorder, and when the recorder's \<open>stop\<close> event comes and
  the read of the blob ends while \<open>end\<close> still awaits its termination request, the
  audio recorded so far is posted to the session as any other utterance is.
\<close>

theorem utterances_sent_once_in_order:
  "(can_record w \<longrightarrow>
      reads_started (trace (recordings ds w)) = reads_started (trace w) @ ds
    \<and> fetches (trace (recordings ds w)) = fetches (trace w)
    \<and> fetches (trace (fold read_ends bs (recordings ds w)))
        = fetches (trace w) @ map (PostAudio (sessionId (self w))) bs
    \<and> fetches (trace (fold utterance ds w))
        = fetches (trace w) @ map (PostAudio (sessionId (self w))) ds)
   \<and> (can_stop w \<and> truthy (sessionId (self w)) \<longrightarrow>
      fetches (trace (snd (read_done (recorder_stopped data (snd (end_start w))))))
        = fetches (trace w) @
            [EndSession (sessionId (self w)),
             PostAudio (sessionId (self w)) (Blob (audioChunks (self w)) @ data)])"
  using recordings_trace [of w ds] reads_end_trace [of bs "recordings ds w"]
    utterances_fetches [of w ds] end_while_recording [of w data]
  by simp

lemma can_record_started: "can_record started_world"
  by (simp add: can_record_def can_start_def stream_live_def stream_active_def started_world_eq)

theorem utterances_sent_once_in_order_witness:
  "can_record started_world
   \<and> reads_started (trace (recordings [[1, 2], [3]] started_world)) = [[1, 2], [3]]
   \<and> fetches (trace (recordings [[1, 2], [3]] started_world)) = [CreateSession]
   \<and> fetches (trace (fold read_ends [[3], [1, 2]] (recordings [[1, 2], [3]] started_world)))
       = [CreateSession, PostAudio (JStr ''s1'') [3], PostAudio (JStr ''s1'') [1, 2]]
   \<and> fetches (trace (fold utterance [[1, 2], [3]] started_world))
       = [CreateSession, PostAudio (JStr ''s1'') [1, 2], PostAudio (JStr ''s1'') [3]]
   \<and> can_stop recording_world \<and> truthy (sessionId (self recording_world))
   \<and> fetches (trace (snd (read_done (recorder_stopped [1, 2, 3] (snd (end_start recording_world))))))
       = [CreateSession, EndSession (JStr ''s1''), PostAudio (JStr ''s1'') [1, 2, 3]]"
proof -
  have s: "sessionId (self started_world) = JStr ''s1''"
    and f: "fetches (trace started_world) = [CreateSession]"
    and r: "reads_started (trace started_world) = []"
    by (simp_all add: started_world_eq)
  have s': "sessionId (self recording_world) = JStr ''s1''"
    and f': "fetches (trace recording_world) = [CreateSession]"
    and a': "audioChunks (self recording_world) = []"
    and c': "can_stop recording_world"
    by (simp_all add: recording_world_eq started_world_eq can_stop_def)
  show ?thesis
    using utterances_sent_once_in_order [of started_world "[[1, 2], [3]]" "[[3], [1, 2]]" "[]"]
      utterances_sent_once_in_order [of recording_world "[]" "[]" "[1, 2, 3]"]
      can_record_started c'
    by (simp add: s f r s' f' a' Blob_def)
qed

text \<open>
  The claim as stated fails. \<open>end\<close> is called while a recording is in progress, and
  the audio recorded, \<open>[1, 2, 3]\<close>, is posted to the session. And of two recordings
  whose reads end in the other order, the second is posted first.
\<close>

theorem partial_utterance_sent_counterexample:
  "fetches (trace (snd (read_done (recorder_stopped [1, 2, 3] (snd (end_start recording_world))))))
     = [CreateSession, EndSession (JStr ''s1''), PostAudio (JStr ''s1'') [1, 2, 3]]
   \<and> fetches (trace (fold read_ends [[3], [1, 2]] (recordings [[1, 2], [3]] started_world)))
     = [CreateSession, PostAudio (JStr ''s1'') [3], PostAudio (JStr ''s1'') [1, 2]]"
proof -
  have "fetches (trace (snd (read_done (recorder_stopped [1, 2, 3] (snd (end_start recording_world))))))
      = [CreateSession, EndSession (JStr ''s1''), PostAudio (JStr ''s1'') [1, 2, 3]]"
    by (simp add: recording_world_eq started_world_eq end_start_def stopRecording_def
        MediaRecorder_stop_def recorder_stopped_def ondataavailable_def onstop_def Blob_def
        sendAudioToServer_start_def read_done_def reader_onloadend_def emit_def Let_def)
  moreover have "fetches (trace (fold read_ends [[3], [1, 2]] (recordings [[1, 2], [3]] started_world)))
      = [CreateSession, PostAudio (JStr ''s1'') [3], PostAudio (JStr ''s1'') [1, 2]]"
    using recordings_trace [OF can_record_started, of "[[1, 2], [3]]"]
      reads_end_trace [of "[[3], [1, 2]]" "recordings [[1, 2], [3]] started_world"]
    by (simp add: started_world_eq)
  ultimately show ?thesis by simp
qed

subsection \<open>Sequence numbers of the session log\<close>

lemma next_seq_snoc: "next_seq (ys @ [y]) = Suc (seq y)"
  by (cases ys) (simp_all add: next_seq_def)

lemma next_seq_ok: "log_ok s \<Longrightarrow> next_seq (log s) = Suc (length (log s))"
proof (cases "log s" rule: rev_cases)
  case Nil
  then show ?thesis by (simp add: next_seq_def)
next
  case (snoc ys y)
  assume "log_ok s"
  then have "map seq ys @ [seq y] = [1..<Suc (length ys)] @ [Suc (length ys)]"
    using snoc by (simp add: log_ok_def seqs_def del: upt_Suc) (simp add: upt_Suc_append)
  then have "seq y = Suc (length ys)" by simp
  then show ?thesis using snoc by (simp add: next_seq_snoc)
qed

lemma log_ok_turn: "log_ok (s\<lparr>turn_active := b\<rparr>) = log_ok s"
  by (simp add: log_ok_def seqs_def)

lemma log_ok_empty: "log_ok \<lparr>log = [], turn_active = b\<rparr>"
  by (simp add: log_ok_def seqs_def)

lemma log_ok_append:
  assumes "log_ok s"
  shows "log_ok \<lparr>log = log s @ [\<lparr>msg_role = r, msg_content = c, msg_audio = au,
                                 seq = next_seq (log s)\<rparr>],
                 turn_active = b\<rparr>"
proof -
  have "map seq (log s) = [1..<Suc (length (log s))]"
    using assms by (simp add: log_ok_def seqs_def)
  then show ?thesis
    using next_seq_ok [OF assms]
    by (simp add: log_ok_def seqs_def del: upt_Suc) (simp add: upt_Suc_append)
qed

lemma apply_op_ok:
  assumes a: "\<And>sid s. m sid = Some s \<Longrightarrow> log_ok s"
    and r: "apply_op op m sid = Some s"
  shows "log_ok s"
proof (cases op)
  case (Create c)
  then show ?thesis using a r
    by (auto simp: create_def log_ok_empty split: option.splits if_splits)
next
  case (Submit c)
  then show ?thesis using a r
    by (auto simp: submit_def log_ok_turn split: option.splits if_splits)
next
  case (Complete c t au)
  then show ?thesis using a r
    by (auto simp: complete_def log_ok_append split: option.splits if_splits)
next
  case (End c)
  then show ?thesis using a r
    by (auto simp: end_session_def split: if_splits)
qed

lemma fold_apply_op_ok:
  "(\<And>sid s. m sid = Some s \<Longrightarrow> log_ok s) \<Longrightarrow> fold apply_op ops m sid = Some s \<Longrightarrow> log_ok s"
proof (induction ops arbitrary: m)
  case Nil
  then show ?case by simp
next
  case (Cons op ops)
  have h: "\<And>sid s. apply_op op m sid = Some s \<Longrightarrow> log_ok s"
    using Cons.prems(1) by (rule apply_op_ok)
  show ?case
  proof (rule Cons.IH [of "apply_op op m"])
    show "\<And>sid s. apply_op op m sid = Some s \<Longrightarrow> log_ok s" by (rule h)
    show "fold apply_op ops (apply_op op m) sid = Some s" using Cons.prems(2) by simp
  qed
qed

lemma run_manager_ok: "run_manager ops sid = Some s \<Longrightarrow> log_ok s"
  unfolding run_manager_def by (rule fold_apply_op_ok [of Map.empty]) simp_all

text \<open>
  C8. In every session the manager holds, after any sequence of its operations, the
  sequence numbers of the logged messages are \<open>1, 2, \<dots>, n\<close> in the order of the log:
  strictly increasing, without a gap, none used twice.
\<close>

theorem sequence_numbers_gapless:
  "run_manager ops sid = Some s \<Longrightarrow>
     seqs s = [1..<Suc (length (log s))] \<and> sorted_wrt (<) (seqs s) \<and> distinct (seqs s)"
proof -
  assume "run_manager ops sid = Some s"
  then have "log_ok s" by (rule run_manager_ok)
  then have e: "seqs s = [1..<Suc (length (log s))]" by (simp add: log_ok_def)
  show ?thesis unfolding e by (simp del: upt_Suc)
qed

theorem sequence_numbers_gapless_witness:
  "run_manager [Create 7, Submit 7, Complete 7 (JStr ''a'') JNull, Submit 7, Submit 7,
                Complete 7 (JStr ''b'') JNull, Complete 7 (JStr ''c'') JNull] 7
     = Some \<lparr>log = [\<lparr>msg_role = JStr ''assistant'', msg_content = JStr ''a'',
                      msg_audio = JNull, seq = 1\<rparr>,
                     \<lparr>msg_role = JStr ''assistant'', msg_content = JStr ''b'',
                      msg_audio = JNull, seq = 2\<rparr>],
              turn_active = False\<rparr>
   \<and> seqs \<lparr>log = [\<lparr>msg_role = JStr ''assistant'', msg_content = JStr ''a'',
                      msg_audio = JNull, seq = 1\<rparr>,
                     \<lparr>msg_role = JStr ''assistant'', msg_content = JStr ''b'',
                      msg_audio = JNull, seq = 2\<rparr>],
              turn_active = False\<rparr> = [1, 2]"
proof -
  have r: "run_manager [Create 7, Submit 7, Complete 7 (JStr ''a'') JNull, Submit 7, Submit 7,
                Complete 7 (JStr ''b'') JNull, Complete 7 (JStr ''c'') JNull] 7
     = Some \<lparr>log = [\<lparr>msg_role = JStr ''assistant'', msg_content = JStr ''a'',
                      msg_audio = JNull, seq = 1\<rparr>,
                     \<lparr>msg_role = JStr ''assistant'', msg_content = JStr ''b'',
                      msg_audio = JNull, seq = 2\<rparr>],
              turn_active = False\<rparr>"
    by (simp add: run_manager_def create_def submit_def complete_def next_seq_def)
  from sequence_numbers_gapless [OF r] r show ?thesis by (simp add: upt_rec)
qed

end
